theory Spec2Isabelle
  imports Complex_Main "HOL-Library.Multiset"
begin

section \<open>Values of the spreadsheet\<close>

text \<open>
  The two Streamlit scripts (\<^verbatim>\<open>app.py\<close> and the enhanced app) read a spreadsheet into a pandas
  DataFrame and transform it. The embedding keeps pandas' view of the data:
  \<^item> a Python \<^verbatim>\<open>str\<close> held in a cell or written to the report is a list of Unicode code
    points (\<open>pystr\<close>); \<open>ascii\<close> turns an Isabelle literal into one;
  \<^item> a cell is missing (\<^verbatim>\<open>None\<close>/\<^verbatim>\<open>NaN\<close>, which \<^verbatim>\<open>pd.isna\<close> does not tell apart), a number
    or a text;
  \<^item> a Python \<^verbatim>\<open>float\<close> is a real number. Rounding to 53 bits and overflow to infinity are
    not modelled; \<^verbatim>\<open>NaN\<close> is the absent value \<open>None\<close> (or \<open>Null\<close> in a cell).
\<close>

type_synonym pystr = "nat list"

definition ascii :: "string \<Rightarrow> pystr" where
  "ascii s = map of_char s"

datatype cell = Null | Num real | Str pystr

datatype py_error = ValueError | KeyError

section \<open>Cleaning a chainage value (\<^verbatim>\<open>app.py\<close>, \<^verbatim>\<open>clean_chainage\<close>)\<close>

text \<open>The character class \<^verbatim>\<open>[0-9.]\<close>: the ten ASCII digits and the full stop.\<close>

definition is_digit :: "nat \<Rightarrow> bool" where
  "is_digit c = (48 \<le> c \<and> c \<le> 57)"

definition digit_or_dot :: "nat \<Rightarrow> bool" where
  "digit_or_dot c = (is_digit c \<or> c = 46)"

text \<open>\<^verbatim>\<open>re.sub(r"[^0-9.]", "", s)\<close>: every character outside the class is deleted.\<close>

definition re_sub_non_numeric :: "pystr \<Rightarrow> pystr" where
  "re_sub_non_numeric s = filter digit_or_dot s"

text \<open>The number a string of decimal digits denotes (\<open>0\<close> for the empty string).\<close>

definition digits_value :: "pystr \<Rightarrow> nat" where
  "digits_value ds = foldl (\<lambda>acc d. 10 * acc + (d - 48)) 0 ds"

text \<open>
  Python's \<^verbatim>\<open>float(s)\<close> on the strings \<^verbatim>\<open>re.sub\<close> leaves, which hold digits and full stops
  only (no sign, exponent, blank or letter survives the substitution). Of those, \<^verbatim>\<open>float\<close>
  accepts \<^verbatim>\<open>digits\<close>, \<^verbatim>\<open>digits.\<close>, \<^verbatim>\<open>digits.digits\<close> and \<^verbatim>\<open>.digits\<close>, and raises
  \<^verbatim>\<open>ValueError\<close> on the rest: the empty string, a lone full stop, two full stops.
\<close>

definition float_py :: "pystr \<Rightarrow> py_error + real" where
  "float_py s =
     (let ip = takeWhile is_digit s; rest = dropWhile is_digit s in
      case rest of
        [] \<Rightarrow> if ip = [] then Inl ValueError else Inr (real (digits_value ip))
      | _ # fp \<Rightarrow>
          if list_all is_digit fp \<and> \<not> (ip = [] \<and> fp = [])
          then Inr (real (digits_value ip) + real (digits_value fp) / 10 ^ length fp)
          else Inl ValueError)"

text \<open>
  \<^verbatim>\<open>
  def clean_chainage(v):
      if pd.isna(v): return None
      if isinstance(v, (int, float)): return v
      v = re.sub(r"[^0-9.]", "", str(v))
      try: return float(v)
      except: return None
  \<close>
  The result is again a cell: \<^verbatim>\<open>None\<close> is \<open>Null\<close>. The function is written with the error
  channel of every Python function, so that what the \<^verbatim>\<open>try\<close> catches is visible.
\<close>

definition clean_chainage :: "cell \<Rightarrow> py_error + cell" where
  "clean_chainage v =
     (case v of
        Null \<Rightarrow> Inr Null
      | Num x \<Rightarrow> Inr (Num x)
      | Str s \<Rightarrow>
          (case float_py (re_sub_non_numeric s) of
             Inr x \<Rightarrow> Inr (Num x)
           | Inl e \<Rightarrow> Inr Null))"

section \<open>Column labels\<close>

text \<open>
  Column labels are Python strings too; the embedding keeps them in the Latin-1 repertoire
  (Isabelle's \<open>string\<close>), on which \<^verbatim>\<open>str.strip\<close> and \<^verbatim>\<open>str.lower\<close> are written out:
  the blanks are U+0009..U+000D, U+001C..U+0020, U+0085 and U+00A0; the capitals are
  A..Z and U+00C0..U+00DE without the multiplication sign U+00D7.
\<close>

definition is_space :: "char \<Rightarrow> bool" where
  "is_space c = (let n = (of_char c :: nat) in
     (9 \<le> n \<and> n \<le> 13) \<or> (28 \<le> n \<and> n \<le> 32) \<or> n = 133 \<or> n = 160)"

definition strip :: "string \<Rightarrow> string" where
  "strip s = rev (dropWhile is_space (rev (dropWhile is_space s)))"

definition lower_char :: "char \<Rightarrow> char" where
  "lower_char c = (let n = (of_char c :: nat) in
     if (65 \<le> n \<and> n \<le> 90) \<or> (192 \<le> n \<and> n \<le> 222 \<and> n \<noteq> 215)
     then char_of (n + 32) else c)"

definition lower :: "string \<Rightarrow> string" where
  "lower s = map lower_char s"

text \<open>\<^verbatim>\<open>s.startswith(sub)\<close> and the substring test \<^verbatim>\<open>sub in s\<close>.\<close>

fun starts_with :: "string \<Rightarrow> string \<Rightarrow> bool" where
  "starts_with s [] = True"
| "starts_with [] (c # sub) = False"
| "starts_with (d # s) (c # sub) = (d = c \<and> starts_with s sub)"

fun contains :: "string \<Rightarrow> string \<Rightarrow> bool" where
  "contains [] sub = (sub = [])"
| "contains (d # s) sub = (starts_with (d # s) sub \<or> contains s sub)"

section \<open>The DataFrame\<close>

text \<open>
  A DataFrame is its column index (label and dtype of each column, in order) and its rows.
  \<open>Numeric\<close> stands for pandas' \<^verbatim>\<open>int64\<close> and \<^verbatim>\<open>float64\<close>, \<open>Object\<close> for a column that
  holds text. Labels are taken to be unique (the data model's invariant), so a label and
  the position of its first occurrence name the same column; a cell a row does not have
  reads as missing.
\<close>

datatype dtype = Numeric | Object

record dataframe =
  columns :: "(string \<times> dtype) list"
  rows :: "cell list list"

definition cell_at :: "nat \<Rightarrow> cell list \<Rightarrow> cell" where
  "cell_at i r = (if i < length r then r ! i else Null)"

definition column_values :: "nat \<Rightarrow> cell list list \<Rightarrow> cell list" where
  "column_values i rs = map (cell_at i) rs"

fun find_first :: "('a \<Rightarrow> bool) \<Rightarrow> 'a list \<Rightarrow> nat option" where
  "find_first P [] = None"
| "find_first P (x # xs) = (if P x then Some 0 else map_option Suc (find_first P xs))"

text \<open>\<^verbatim>\<open>data.columns.str.strip().str.lower()\<close>\<close>

definition normalize_labels :: "(string \<times> dtype) list \<Rightarrow> (string \<times> dtype) list" where
  "normalize_labels cols = map (\<lambda>c. (lower (strip (fst c)), snd c)) cols"

text \<open>\<^verbatim>\<open>next((c for c in data.columns if "chain" in c), None)\<close>\<close>

definition chain_col :: "(string \<times> dtype) list \<Rightarrow> nat option" where
  "chain_col cols = find_first (\<lambda>c. contains (fst c) ''chain'') cols"

text \<open>
  \<^verbatim>\<open>Series.apply(f)\<close> calls \<open>f\<close> on each value in turn; an exception of \<open>f\<close> ends it.
\<close>

fun apply_series :: "(cell \<Rightarrow> py_error + cell) \<Rightarrow> cell list \<Rightarrow> py_error + cell list" where
  "apply_series f [] = Inr []"
| "apply_series f (v # vs) =
     (case f v of
        Inl e \<Rightarrow> Inl e
      | Inr w \<Rightarrow> (case apply_series f vs of Inl e \<Rightarrow> Inl e | Inr ws \<Rightarrow> Inr (w # ws)))"

text \<open>
  The dtype of the column \<^verbatim>\<open>apply\<close> returns. On a column without rows \<^verbatim>\<open>apply\<close> returns
  an empty column of the old dtype. Otherwise pandas infers the dtype from the values
  collected: a float column as soon as one of them is a number (\<^verbatim>\<open>None\<close> becomes
  \<^verbatim>\<open>NaN\<close>), an object column when all are \<^verbatim>\<open>None\<close>.
\<close>

definition is_num :: "cell \<Rightarrow> bool" where
  "is_num v = (case v of Num x \<Rightarrow> True | _ \<Rightarrow> False)"

definition applied_dtype :: "dtype \<Rightarrow> cell list \<Rightarrow> dtype" where
  "applied_dtype old vs =
     (if vs = [] then old else if list_ex is_num vs then Numeric else Object)"

text \<open>\<^verbatim>\<open>data[col] = values\<close>: the column's cell of each row is replaced.\<close>

definition set_column :: "nat \<Rightarrow> cell list \<Rightarrow> cell list list \<Rightarrow> cell list list" where
  "set_column i vs rs = map (\<lambda>(r, v). r[i := v]) (zip rs vs)"

text \<open>\<^verbatim>\<open>data.dropna(subset=[col])\<close>: the rows whose cell in that column is missing go.\<close>

definition dropna :: "nat \<Rightarrow> cell list list \<Rightarrow> cell list list" where
  "dropna i rs = filter (\<lambda>r. cell_at i r \<noteq> Null) rs"

text \<open>
  \<^verbatim>\<open>data.sort_values(by=col)\<close> on a numeric column: the rows with a number are sorted
  ascending by it and the rows with a missing value come last (\<^verbatim>\<open>na_position="last"\<close>).
  pandas sorts with numpy's quicksort, which promises no order among equal keys; the
  model sorts stably, and nothing below depends on the order of ties.
\<close>

definition num_key :: "nat \<Rightarrow> cell list \<Rightarrow> real" where
  "num_key i r = (case cell_at i r of Num x \<Rightarrow> x | _ \<Rightarrow> 0)"

definition sort_values :: "nat \<Rightarrow> cell list list \<Rightarrow> cell list list" where
  "sort_values i rs =
     sort_key (num_key i) (filter (\<lambda>r. cell_at i r \<noteq> Null) rs) @
     filter (\<lambda>r. cell_at i r = Null) rs"

section \<open>\<^verbatim>\<open>app.py\<close>: reading, cleaning and sorting (lines 19 to 36)\<close>

datatype app_error =
    ChainageNotFound
  | NotEnoughNumericColumns
  | Caught py_error

text \<open>
  The labels are normalised, the chainage column is looked up (without one the script
  reports it and stops), its values are cleaned, the rows without a chainage are dropped
  and the rest is sorted by chainage. The result carries the chainage column's position.
\<close>

definition normalize :: "dataframe \<Rightarrow> app_error + (nat \<times> dataframe)" where
  "normalize raw =
     (let cols = normalize_labels (columns raw) in
      case chain_col cols of
        None \<Rightarrow> Inl ChainageNotFound
      | Some i \<Rightarrow>
          (case apply_series clean_chainage (column_values i (rows raw)) of
             Inl e \<Rightarrow> Inl (Caught e)
           | Inr vs \<Rightarrow>
               Inr (i,
                 \<lparr>columns = cols[i := (fst (cols ! i), applied_dtype (snd (cols ! i)) vs)],
                  rows = sort_values i (dropna i (set_column i vs (rows raw)))\<rparr>)))"

section \<open>\<^verbatim>\<open>app.py\<close>: the chainage range and the numeric columns (lines 47 to 56)\<close>

text \<open>
  \<^verbatim>\<open>data[col] >= lo\<close> and \<^verbatim>\<open>data[col] <= hi\<close> compare value by value; a missing value
  compares false. \<^verbatim>\<open>&\<close> joins the two masks and \<^verbatim>\<open>data[mask]\<close> keeps the rows whose
  mask is true. The pair \<open>sel\<close> is what the slider returned. Line 38 of the enhanced app is
  the same expression.
\<close>

definition ge_scalar :: "real \<Rightarrow> cell \<Rightarrow> bool" where
  "ge_scalar lo v = (case v of Num x \<Rightarrow> lo \<le> x | _ \<Rightarrow> False)"

definition le_scalar :: "real \<Rightarrow> cell \<Rightarrow> bool" where
  "le_scalar hi v = (case v of Num x \<Rightarrow> x \<le> hi | _ \<Rightarrow> False)"

definition mask_and :: "bool list \<Rightarrow> bool list \<Rightarrow> bool list" where
  "mask_and ps qs = map (\<lambda>(p, q). p \<and> q) (zip ps qs)"

definition boolean_index :: "'a list \<Rightarrow> bool list \<Rightarrow> 'a list" where
  "boolean_index xs keep = map fst (filter snd (zip xs keep))"

definition range_filter :: "nat \<Rightarrow> real \<times> real \<Rightarrow> dataframe \<Rightarrow> dataframe" where
  "range_filter i sel data =
     data\<lparr>rows := boolean_index (rows data)
       (mask_and (map (ge_scalar (fst sel)) (column_values i (rows data)))
                 (map (le_scalar (snd sel)) (column_values i (rows data))))\<rparr>"

text \<open>\<^verbatim>\<open>select_dtypes(include=['float64', 'int64']).columns.tolist()\<close>\<close>

definition numeric_cols :: "dataframe \<Rightarrow> string list" where
  "numeric_cols df = map fst (filter (\<lambda>c. snd c = Numeric) (columns df))"

text \<open>
  The script up to the axis selection: the filtered table and its numeric columns, or the
  error it stopped with.
\<close>

definition app_filtered ::
  "dataframe \<Rightarrow> real \<times> real \<Rightarrow> app_error + (dataframe \<times> string list)" where
  "app_filtered raw selected_range =
     (case normalize raw of
        Inl e \<Rightarrow> Inl e
      | Inr (i, data) \<Rightarrow>
          (let filtered = range_filter i selected_range data in
           if length (numeric_cols filtered) < 2 then Inl NotEnoughNumericColumns
           else Inr (filtered, numeric_cols filtered)))"

section \<open>Pearson correlation\<close>

text \<open>
  \<^verbatim>\<open>Series.corr\<close> and \<^verbatim>\<open>DataFrame.corr\<close> keep, for a pair of columns, the rows in which both
  hold a number, and compute Pearson's coefficient of what is left: the sum of the
  products of the deviations from the means over the square root of the product of the
  two sums of squared deviations. The result is \<^verbatim>\<open>NaN\<close> (\<open>None\<close>) when no row is left or
  when that divisor is zero, which is the case of a constant column and of a single row.
\<close>

definition pair_of :: "cell \<times> cell \<Rightarrow> (real \<times> real) option" where
  "pair_of p = (case p of (Num x, Num y) \<Rightarrow> Some (x, y) | _ \<Rightarrow> None)"

definition complete_pairs :: "cell list \<Rightarrow> cell list \<Rightarrow> (real \<times> real) list" where
  "complete_pairs xs ys = List.map_filter pair_of (zip xs ys)"

definition mean :: "real list \<Rightarrow> real" where
  "mean xs = sum_list xs / real (length xs)"

definition pearson :: "(real \<times> real) list \<Rightarrow> real option" where
  "pearson ps =
     (let mx = mean (map fst ps); my = mean (map snd ps);
          sxy = sum_list (map (\<lambda>p. (fst p - mx) * (snd p - my)) ps);
          sxx = sum_list (map (\<lambda>p. (fst p - mx) ^ 2) ps);
          syy = sum_list (map (\<lambda>p. (snd p - my) ^ 2) ps);
          d = sqrt (sxx * syy)
      in if ps = [] \<or> d = 0 then None else Some (sxy / d))"

definition series_corr :: "cell list \<Rightarrow> cell list \<Rightarrow> real option" where
  "series_corr xs ys = pearson (complete_pairs xs ys)"

text \<open>\<^verbatim>\<open>data[name]\<close>: the column of that label, \<^verbatim>\<open>KeyError\<close> when there is none.\<close>

definition getitem :: "dataframe \<Rightarrow> string \<Rightarrow> py_error + cell list" where
  "getitem df name =
     (case find_first (\<lambda>c. fst c = name) (columns df) of
        None \<Rightarrow> Inl KeyError
      | Some i \<Rightarrow> Inr (column_values i (rows df)))"

section \<open>\<^verbatim>\<open>app.py\<close>: trend line and correlation summary (lines 76 to 80 and 145)\<close>

text \<open>
  \<^verbatim>\<open>np.polyfit(x, y, 1)\<close> on two columns of equal, non-zero length, as the script calls it.
  It fits \<open>y = slope * x + intercept\<close> by least squares. numpy does not filter missing
  values: with a \<^verbatim>\<open>NaN\<close> in either column no finite coefficients come out (the
  coefficients are \<^verbatim>\<open>NaN\<close>, or the solver raises \<^verbatim>\<open>LinAlgError\<close>, which the script's
  \<^verbatim>\<open>except\<close> reports). With a constant \<open>x\<close> the system is rank deficient; numpy warns and
  returns its minimum-norm solution, of which the model records the case only.
\<close>

datatype fit = Line real real | RankDeficient | NotFinite

definition polyfit1 :: "cell list \<Rightarrow> cell list \<Rightarrow> fit" where
  "polyfit1 xs ys =
     (if \<not> (list_all is_num xs \<and> list_all is_num ys) then NotFinite
      else
        (let ps = complete_pairs xs ys;
             mx = mean (map fst ps); my = mean (map snd ps);
             sxy = sum_list (map (\<lambda>p. (fst p - mx) * (snd p - my)) ps);
             sxx = sum_list (map (\<lambda>p. (fst p - mx) ^ 2) ps)
         in if sxx = 0 then RankDeficient
            else Line (sxy / sxx) (my - sxy / sxx * mx)))"

text \<open>
  \<^verbatim>\<open>
  if len(filtered) > 2:
      z = np.polyfit(filtered[x_axis], filtered[y_axis], 1)
      ...
      corr_val = filtered[x_axis].corr(filtered[y_axis])
  ...
  corr_val = filtered[x_axis].corr(filtered[y_axis])
  \<close>
  \<open>trend\<close> is \<open>None\<close> when the branch is not taken, and else the fit \<open>z\<close> with the
  coefficient the trend line is labelled with; \<open>correlation\<close> is the value of the summary.
\<close>

record analysis =
  trend :: "(fit \<times> real option) option"
  correlation :: "real option"

definition app_analysis :: "dataframe \<Rightarrow> string \<Rightarrow> string \<Rightarrow> py_error + analysis" where
  "app_analysis filtered x_axis y_axis =
     (case getitem filtered x_axis of
        Inl e \<Rightarrow> Inl e
      | Inr xs \<Rightarrow>
          (case getitem filtered y_axis of
             Inl e \<Rightarrow> Inl e
           | Inr ys \<Rightarrow>
               Inr \<lparr>trend = (if length (rows filtered) > 2
                              then Some (polyfit1 xs ys, series_corr xs ys) else None),
                    correlation = series_corr xs ys\<rparr>))"

section \<open>The enhanced app: the correlation shown (line 46)\<close>



section \<open>The enhanced app: the top correlations of the report (lines 154 to 157)\<close>

text \<open>
  \<^verbatim>\<open>
  corr_matrix = data.corr(numeric_only=True).abs().unstack().sort_values(ascending=False)
  corr_matrix = corr_matrix[corr_matrix < 1].dropna().head(5)
  \<close>
  \<^verbatim>\<open>corr\<close> is the square matrix of the numeric columns' pairwise coefficients; \<^verbatim>\<open>unstack\<close>
  lists all its entries, column by column, each under its pair of labels.
\<close>

type_synonym corr_entry = "(string \<times> string) \<times> real option"

definition numeric_frame :: "dataframe \<Rightarrow> (string \<times> cell list) list" where
  "numeric_frame df =
     map (\<lambda>i. (fst (columns df ! i), column_values i (rows df)))
       (filter (\<lambda>i. snd (columns df ! i) = Numeric) [0..<length (columns df)])"

definition corr_abs_unstack :: "dataframe \<Rightarrow> corr_entry list" where
  "corr_abs_unstack df =
     concat (map (\<lambda>c. map (\<lambda>r. ((fst c, fst r), map_option abs (series_corr (snd r) (snd c))))
                         (numeric_frame df))
                 (numeric_frame df))"

text \<open>
  \<^verbatim>\<open>sort_values(ascending=False)\<close>: pandas reverses the entries that are not \<^verbatim>\<open>NaN\<close>, sorts
  them ascending and reverses the result; the \<^verbatim>\<open>NaN\<close> entries follow. The sort is again
  numpy's quicksort, modelled by a stable sort.
\<close>

definition entry_key :: "corr_entry \<Rightarrow> real" where
  "entry_key e = (case snd e of Some v \<Rightarrow> v | None \<Rightarrow> 0)"

definition sort_values_desc :: "corr_entry list \<Rightarrow> corr_entry list" where
  "sort_values_desc es =
     rev (sort_key entry_key (rev (filter (\<lambda>e. snd e \<noteq> None) es))) @
     filter (\<lambda>e. snd e = None) es"

text \<open>\<^verbatim>\<open>corr_matrix < 1\<close> is false on \<^verbatim>\<open>NaN\<close>.\<close>

definition below_one :: "corr_entry \<Rightarrow> bool" where
  "below_one e = (case snd e of Some v \<Rightarrow> v < 1 | None \<Rightarrow> False)"

definition top_correlations :: "nat \<Rightarrow> dataframe \<Rightarrow> corr_entry list" where
  "top_correlations limit df =
     take limit (filter (\<lambda>e. snd e \<noteq> None) (filter below_one
       (sort_values_desc (corr_abs_unstack df))))"

definition corr_matrix :: "dataframe \<Rightarrow> corr_entry list" where
  "corr_matrix df = top_correlations 5 df"

section \<open>The enhanced app: \<^verbatim>\<open>safe_text\<close> (lines 118 to 137)\<close>

text \<open>
  The replacement table, in the order of the dictionary: en dash, em dash, degree sign,
  plus-minus sign, multiplication sign, bullet, right and left single quotation mark,
  left and right double quotation mark, rightwards arrow.
\<close>

definition replacements :: "(nat \<times> pystr) list" where
  "replacements =
     [(8211, ascii ''-''), (8212, ascii ''-''), (176, ascii '' deg''), (177, ascii ''+/-''),
      (215, ascii ''x''), (8226, ascii ''*''), (8217, [39]), (8216, [39]),
      (8220, [34]), (8221, [34]), (8594, ascii ''->'')]"

text \<open>\<^verbatim>\<open>text.replace(k, v)\<close> for a key \<open>k\<close> of one character.\<close>

definition replace_char :: "nat \<Rightarrow> pystr \<Rightarrow> pystr \<Rightarrow> pystr" where
  "replace_char k v s = concat (map (\<lambda>c. if c = k then v else [c]) s)"

text \<open>
  \<^verbatim>\<open>text.encode("latin-1", "replace").decode("latin-1")\<close>: a character up to U+00FF is
  encoded as one byte and decoded to itself; any other becomes a question mark.
\<close>

definition latin1_replace :: "pystr \<Rightarrow> pystr" where
  "latin1_replace s = map (\<lambda>c. if c < 256 then c else 63) s"

definition safe_text :: "pystr \<Rightarrow> pystr" where
  "safe_text s = latin1_replace (foldl (\<lambda>t kv. replace_char (fst kv) (snd kv) t) s replacements)"

text \<open>The printable ASCII characters: U+0020 to U+007E.\<close>

definition printable_ascii :: "nat \<Rightarrow> bool" where
  "printable_ascii c = (32 \<le> c \<and> c \<le> 126)"

section \<open>Sample tables\<close>

text \<open>
  The sheet of the end-to-end scenario: chainages 100, 140, 120, 160 and a second numeric
  column 5, 7, 6, 9.
\<close>

definition scenario :: dataframe where
  "scenario =
     \<lparr>columns = [(''Chainage (m)'', Numeric), (''Torque'', Numeric)],
      rows = [[Num 100, Num 5], [Num 140, Num 7], [Num 120, Num 6], [Num 160, Num 9]]\<rparr>"

definition scenario_sorted :: dataframe where
  "scenario_sorted =
     \<lparr>columns = [(''chainage (m)'', Numeric), (''torque'', Numeric)],
      rows = [[Num 100, Num 5], [Num 120, Num 6], [Num 140, Num 7], [Num 160, Num 9]]\<rparr>"

text \<open>
  A sheet whose chainage column holds texts and a gap: \<^verbatim>\<open>12+345.5\<close>, an empty cell,
  \<^verbatim>\<open>n/a\<close>, \<^verbatim>\<open>1.2.3\<close> and the number 7.
\<close>

definition messy :: dataframe where
  "messy =
     \<lparr>columns = [(''chainage'', Object), (''thrust'', Numeric)],
      rows = [[Str (ascii ''12+345.5''), Num 1], [Null, Num 2], [Str (ascii ''n/a''), Num 3],
              [Str (ascii ''1.2.3''), Num 4], [Num 7, Num 5]]\<rparr>"





definition two_columns :: dataframe where
  "two_columns =
     \<lparr>columns = [(''a'', Numeric), (''b'', Numeric)],
      rows = [[Num 1, Num 1], [Num 2, Num 3], [Num 3, Num 2]]\<rparr>"



section \<open>Properties\<close>

lemma ascii_simps:
  "ascii [] = []"
  "ascii (c # cs) = of_char c # ascii cs"
  by (simp_all add: ascii_def)

text \<open>
  C10. \<^verbatim>\<open>clean_chainage\<close> is total: on every cell (missing, a number, any text) it returns a
  number or the excluded marker and never raises, also on texts whose stripped form
  \<^verbatim>\<open>float\<close> rejects, such as \<^verbatim>\<open>1.2.3\<close> and the empty string.
\<close>

theorem clean_chainage_total:
  "((\<exists>x. clean_chainage v = Inr (Num x)) \<or> clean_chainage v = Inr Null)
   \<and> float_py (re_sub_non_numeric (ascii ''1.2.3'')) = Inl ValueError
   \<and> clean_chainage (Str (ascii ''1.2.3'')) = Inr Null
   \<and> float_py (re_sub_non_numeric (ascii '''')) = Inl ValueError
   \<and> clean_chainage (Str (ascii '''')) = Inr Null"
  by (auto simp: clean_chainage_def float_py_def re_sub_non_numeric_def ascii_simps
      digit_or_dot_def is_digit_def split: cell.splits sum.splits)

subsection \<open>Cleaning, dropping and sorting\<close>

lemma clean_chainage_cases:
  "clean_chainage v = Inr Null \<or> (\<exists>x. clean_chainage v = Inr (Num x))"
  by (auto simp: clean_chainage_def split: cell.splits sum.splits)

lemma clean_chainage_projr: "clean_chainage v = Inr (projr (clean_chainage v))"
  using clean_chainage_cases [of v] by auto

lemma apply_series_clean:
  "apply_series clean_chainage vs = Inr (map (\<lambda>v. projr (clean_chainage v)) vs)"
proof (induction vs)
  case Nil
  show ?case by simp
next
  case (Cons v vs)
  obtain w where w: "clean_chainage v = Inr w"
    using clean_chainage_projr by blast
  show ?case by (simp add: w Cons.IH)
qed

lemma zip_with_image: "zip xs (map f xs) = map (\<lambda>x. (x, f x)) xs"
  by (induction xs) simp_all

lemma set_column_map:
  "set_column i (map f (column_values i rs)) rs = map (\<lambda>r. r[i := f (cell_at i r)]) rs"
  by (simp add: set_column_def column_values_def zip_with_image comp_def)

lemma cell_at_update: "cell_at i (r[i := v]) = (if i < length r then v else Null)"
  by (simp add: cell_at_def)

lemma cell_at_short: "\<not> i < length r \<Longrightarrow> cell_at i r = Null"
  by (simp add: cell_at_def)

lemma dropna_cleaned:
  "dropna i (map (\<lambda>r. r[i := projr (clean_chainage (cell_at i r))]) rs) =
   map (\<lambda>r. r[i := projr (clean_chainage (cell_at i r))])
     (filter (\<lambda>r. clean_chainage (cell_at i r) \<noteq> Inr Null) rs)"
proof -
  have "cell_at i (r[i := projr (clean_chainage (cell_at i r))]) \<noteq> Null
        \<longleftrightarrow> clean_chainage (cell_at i r) \<noteq> Inr Null" for r
  proof (cases "i < length r")
    case True
    then show ?thesis
      using clean_chainage_projr [of "cell_at i r"] by (auto simp: cell_at_update)
  next
    case False
    then show ?thesis
      by (simp add: cell_at_update cell_at_short clean_chainage_def)
  qed
  then show ?thesis
    by (simp add: dropna_def filter_map comp_def)
qed

lemma dropna_no_null: "filter (\<lambda>r. cell_at i r = Null) (dropna i rs) = []"
  by (induction rs) (simp_all add: dropna_def)

lemma dropna_all: "filter (\<lambda>r. cell_at i r \<noteq> Null) (dropna i rs) = dropna i rs"
  by (simp add: dropna_def)

lemma sort_values_dropna: "sort_values i (dropna i rs) = sort_key (num_key i) (dropna i rs)"
  by (simp add: sort_values_def dropna_no_null dropna_all)

lemma normalize_rows_raw:
  assumes "normalize raw = Inr (i, t)"
  shows "rows t = sort_values i (dropna i
           (map (\<lambda>r. r[i := projr (clean_chainage (cell_at i r))]) (rows raw)))"
  using assms
  by (auto simp: normalize_def Let_def apply_series_clean set_column_map
      split: option.splits)

lemma normalize_rows:
  assumes "normalize raw = Inr (i, t)"
  shows "rows t = sort_key (num_key i)
           (map (\<lambda>r. r[i := projr (clean_chainage (cell_at i r))])
              (filter (\<lambda>r. clean_chainage (cell_at i r) \<noteq> Inr Null) (rows raw)))"
proof -
  have "rows t = sort_key (num_key i) (dropna i
           (map (\<lambda>r. r[i := projr (clean_chainage (cell_at i r))]) (rows raw)))"
    by (simp only: normalize_rows_raw [OF assms] sort_values_dropna)
  then show ?thesis
    by (simp only: dropna_cleaned)
qed

lemma dropna_num:
  assumes "r \<in> set (dropna i (map (\<lambda>r. r[i := projr (clean_chainage (cell_at i r))]) rs))"
  shows "\<exists>x. cell_at i r = Num x"
proof -
  from assms obtain r0 where r: "r = r0[i := projr (clean_chainage (cell_at i r0))]"
    and nn: "cell_at i r \<noteq> Null"
    by (auto simp: dropna_def)
  show ?thesis
  proof (cases "i < length r0")
    case True
    then have "cell_at i r = projr (clean_chainage (cell_at i r0))"
      by (simp add: r cell_at_update)
    then show ?thesis
      using nn clean_chainage_cases [of "cell_at i r0"] by auto
  next
    case False
    then show ?thesis using nn by (simp add: r cell_at_update)
  qed
qed

text \<open>Evaluation of the sample tables.\<close>

lemma label_chainage_m: "lower (strip ''Chainage (m)'') = ''chainage (m)''"
  by code_simp

lemma label_torque: "lower (strip ''Torque'') = ''torque''"
  by code_simp

lemma label_chainage: "lower (strip ''chainage'') = ''chainage''"
  by code_simp

lemma label_thrust: "lower (strip ''thrust'') = ''thrust''"
  by code_simp

lemmas frame_eval = normalize_def normalize_labels_def chain_col_def Let_def
  column_values_def cell_at_def clean_chainage_def set_column_def dropna_def sort_values_def
  num_key_def applied_dtype_def is_num_def range_filter_def ge_scalar_def le_scalar_def
  mask_and_def boolean_index_def numeric_cols_def

lemma normalize_scenario: "normalize scenario = Inr (0, scenario_sorted)"
  by (simp add: scenario_def scenario_sorted_def frame_eval label_chainage_m label_torque)

lemma float_py_12345: "float_py (re_sub_non_numeric (ascii ''12+345.5'')) = Inr 12345.5"
  by (simp add: float_py_def re_sub_non_numeric_def ascii_simps digit_or_dot_def is_digit_def
      digits_value_def)

lemma float_py_na: "float_py (re_sub_non_numeric (ascii ''n/a'')) = Inl ValueError"
  by (simp add: float_py_def re_sub_non_numeric_def ascii_simps digit_or_dot_def is_digit_def)

lemma float_py_123: "float_py (re_sub_non_numeric (ascii ''1.2.3'')) = Inl ValueError"
  by (simp add: float_py_def re_sub_non_numeric_def ascii_simps digit_or_dot_def is_digit_def)

lemma normalize_messy:
  "normalize messy =
     Inr (0, \<lparr>columns = [(''chainage'', Numeric), (''thrust'', Numeric)],
              rows = [[Num 7, Num 5], [Num 12345.5, Num 1]]\<rparr>)"
  by (simp add: messy_def normalize_def normalize_labels_def chain_col_def Let_def
      column_values_def cell_at_def set_column_def dropna_def sort_values_def num_key_def
      applied_dtype_def is_num_def label_chainage label_thrust
      clean_chainage_def float_py_12345 float_py_na float_py_123)

text \<open>
  C6. Cleaning the position column: a missing value is excluded (\<open>Null\<close>), a number is kept
  unchanged, any other value has every character but digits and full stops removed and the
  rest parsed as a float, and is excluded when the parse fails; the rows of the normalised
  table are, up to their order, exactly the rows of the raw table whose cleaned value is
  not excluded, each with the cleaned value in the position column.
\<close>

theorem clean_chainage_rows:
  "clean_chainage Null = Inr Null
   \<and> clean_chainage (Num x) = Inr (Num x)
   \<and> clean_chainage (Str s) =
       (case float_py (filter (\<lambda>c. (48 \<le> c \<and> c \<le> 57) \<or> c = 46) s) of
          Inr y \<Rightarrow> Inr (Num y) | Inl e \<Rightarrow> Inr Null)
   \<and> (normalize raw = Inr (i, t) \<longrightarrow>
        mset (rows t) =
        mset (map (\<lambda>r. r[i := projr (clean_chainage (cell_at i r))])
               (filter (\<lambda>r. clean_chainage (cell_at i r) \<noteq> Inr Null) (rows raw))))"
proof -
  have "filter digit_or_dot s = filter (\<lambda>c. (48 \<le> c \<and> c \<le> 57) \<or> c = 46) s"
    by (rule arg_cong [where f = "\<lambda>P. filter P s"])
      (auto simp: digit_or_dot_def is_digit_def fun_eq_iff)
  then have "clean_chainage (Str s) =
       (case float_py (filter (\<lambda>c. (48 \<le> c \<and> c \<le> 57) \<or> c = 46) s) of
          Inr y \<Rightarrow> Inr (Num y) | Inl e \<Rightarrow> Inr Null)"
    by (simp add: clean_chainage_def re_sub_non_numeric_def)
  moreover have "clean_chainage Null = Inr Null" "clean_chainage (Num x) = Inr (Num x)"
    by (simp_all add: clean_chainage_def)
  moreover have "mset (rows t) =
        mset (map (\<lambda>r. r[i := projr (clean_chainage (cell_at i r))])
               (filter (\<lambda>r. clean_chainage (cell_at i r) \<noteq> Inr Null) (rows raw)))"
    if "normalize raw = Inr (i, t)"
    using normalize_rows [OF that] by simp
  ultimately show ?thesis by blast
qed

theorem clean_chainage_rows_witness:
  "normalize messy =
     Inr (0, \<lparr>columns = [(''chainage'', Numeric), (''thrust'', Numeric)],
              rows = [[Num 7, Num 5], [Num 12345.5, Num 1]]\<rparr>)
   \<and> mset [[Num 7, Num 5], [Num 12345.5, Num 1]] =
       mset (map (\<lambda>r. r[0 := projr (clean_chainage (cell_at 0 r))])
              (filter (\<lambda>r. clean_chainage (cell_at 0 r) \<noteq> Inr Null) (rows messy)))
   \<and> clean_chainage (Str (ascii ''12+345.5'')) = Inr (Num 12345.5)"
proof -
  have "mset (rows \<lparr>columns = [(''chainage'', Numeric), (''thrust'', Numeric)],
              rows = [[Num 7, Num 5], [Num 12345.5, Num 1]]\<rparr>) =
       mset (map (\<lambda>r. r[0 := projr (clean_chainage (cell_at 0 r))])
              (filter (\<lambda>r. clean_chainage (cell_at 0 r) \<noteq> Inr Null) (rows messy)))"
    using clean_chainage_rows [of 0 "[]" messy 0] normalize_messy by blast
  then show ?thesis
    by (simp add: normalize_messy clean_chainage_def float_py_12345)
qed

text \<open>
  C7. In the table the normaliser returns, every two adjacent rows hold numbers in the
  position column and the first is at most the second: the table is sorted ascending by
  position.
\<close>

theorem normalize_sorted:
  assumes "normalize raw = Inr (i, t)" and "Suc k < length (rows t)"
  shows "\<exists>x y. cell_at i (rows t ! k) = Num x \<and> cell_at i (rows t ! Suc k) = Num y \<and> x \<le> y"
proof -
  let ?D = "dropna i (map (\<lambda>r. r[i := projr (clean_chainage (cell_at i r))]) (rows raw))"
  have rows: "rows t = sort_key (num_key i) ?D"
    by (simp only: normalize_rows_raw [OF assms(1)] sort_values_dropna)
  have num: "\<exists>x. cell_at i r = Num x" if "r \<in> set (rows t)" for r
    using that dropna_num [of r i "rows raw"] by (simp add: rows)
  have "sorted (map (num_key i) (rows t))"
    by (simp add: rows sorted_sort_key)
  then have le: "num_key i (rows t ! k) \<le> num_key i (rows t ! Suc k)"
    using assms(2) sorted_nth_mono [of "map (num_key i) (rows t)" k "Suc k"] by simp
  obtain x where x: "cell_at i (rows t ! k) = Num x"
    using num [of "rows t ! k"] assms(2) by auto
  obtain y where y: "cell_at i (rows t ! Suc k) = Num y"
    using num [of "rows t ! Suc k"] assms(2) by auto
  from le x y have "x \<le> y" by (simp add: num_key_def)
  with x y show ?thesis by blast
qed

theorem normalize_sorted_witness:
  "normalize messy =
     Inr (0, \<lparr>columns = [(''chainage'', Numeric), (''thrust'', Numeric)],
              rows = [[Num 7, Num 5], [Num 12345.5, Num 1]]\<rparr>)
   \<and> (\<exists>x y. cell_at 0 [Num 7, Num 5] = Num x \<and> cell_at 0 [Num 12345.5, Num 1] = Num y
         \<and> x \<le> y)"
  using normalize_sorted [OF normalize_messy, of 0] by (simp add: normalize_messy)

text \<open>
  C8. The end-to-end scenario: the sheet with positions 100, 140, 120, 160 and a second
  column 5, 7, 6, 9 is normalised to positions 100, 120, 140, 160 with the second column
  5, 6, 7, 9, and the range 110 to 150 then leaves exactly the rows at 120 and 140.
\<close>

theorem scenario_end_to_end:
  "normalize scenario = Inr (0, scenario_sorted)
   \<and> column_values 0 (rows scenario_sorted) = [Num 100, Num 120, Num 140, Num 160]
   \<and> column_values 1 (rows scenario_sorted) = [Num 5, Num 6, Num 7, Num 9]
   \<and> rows (range_filter 0 (110, 150) scenario_sorted) = [[Num 120, Num 6], [Num 140, Num 7]]
   \<and> app_filtered scenario (110, 150) =
       Inr (\<lparr>columns = [(''chainage (m)'', Numeric), (''torque'', Numeric)],
             rows = [[Num 120, Num 6], [Num 140, Num 7]]\<rparr>,
            [''chainage (m)'', ''torque''])"
proof -
  have "column_values 0 (rows scenario_sorted) = [Num 100, Num 120, Num 140, Num 160]"
    by (simp add: scenario_sorted_def column_values_def cell_at_def)
  moreover have "column_values 1 (rows scenario_sorted) = [Num 5, Num 6, Num 7, Num 9]"
    by (simp add: scenario_sorted_def column_values_def cell_at_def)
  moreover have f: "range_filter 0 (110, 150) scenario_sorted =
      \<lparr>columns = [(''chainage (m)'', Numeric), (''torque'', Numeric)],
       rows = [[Num 120, Num 6], [Num 140, Num 7]]\<rparr>"
    by (simp add: scenario_sorted_def frame_eval)
  moreover have "app_filtered scenario (110, 150) =
       Inr (\<lparr>columns = [(''chainage (m)'', Numeric), (''torque'', Numeric)],
             rows = [[Num 120, Num 6], [Num 140, Num 7]]\<rparr>,
            [''chainage (m)'', ''torque''])"
    by (simp add: app_filtered_def normalize_scenario f numeric_cols_def)
  ultimately show ?thesis
    by (simp add: normalize_scenario)
qed

subsection \<open>The range filter\<close>








subsection \<open>The ranking of correlations\<close>

lemma complete_pairs_same:
  "p \<in> set (complete_pairs xs xs) \<Longrightarrow> fst p = snd p"
  by (auto simp: complete_pairs_def zip_same_conv_map map_filter_def pair_of_def
      split: cell.splits)

text \<open>A column's coefficient with itself is 1, or undefined when the column is constant.\<close>

lemma pearson_diagonal:
  assumes "\<forall>p \<in> set ps. fst p = snd p"
  shows "map_option abs (pearson ps) = None \<or> map_option abs (pearson ps) = Some 1"
proof -
  have ms: "map snd ps = map fst ps"
    using assms by (induction ps) auto
  define m where "m = mean (map fst ps)"
  define S where "S = sum_list (map (\<lambda>p. (fst p - m) ^ 2) ps)"
  have sxy: "sum_list (map (\<lambda>p. (fst p - m) * (snd p - m)) ps) = S"
    unfolding S_def
    by (rule arg_cong [where f = sum_list], rule map_cong)
      (use assms in \<open>auto simp: power2_eq_square\<close>)
  have syy: "sum_list (map (\<lambda>p. (snd p - m) ^ 2) ps) = S"
    unfolding S_def
    by (rule arg_cong [where f = sum_list], rule map_cong) (use assms in auto)
  have "pearson ps = (if ps = [] \<or> sqrt (S * S) = 0 then None else Some (S / sqrt (S * S)))"
    by (simp add: pearson_def Let_def ms sxy syy flip: m_def S_def)
  moreover have "sqrt (S * S) = \<bar>S\<bar>" by simp
  ultimately show ?thesis
    by (auto simp: abs_if)
qed

lemma series_corr_self:
  "map_option abs (series_corr xs xs) = None \<or> map_option abs (series_corr xs xs) = Some 1"
  unfolding series_corr_def
  by (rule pearson_diagonal) (use complete_pairs_same in blast)

lemma below_one_key: "below_one e \<Longrightarrow> snd e = Some (entry_key e) \<and> entry_key e < 1"
  by (auto simp: below_one_def entry_key_def split: option.splits)

lemma below_one_not_None: "snd e = None \<Longrightarrow> \<not> below_one e"
  by (simp add: below_one_def)

lemma filter_below_one_sorted:
  "filter below_one (sort_values_desc es) =
   filter below_one (rev (sort_key entry_key (rev (filter (\<lambda>e. snd e \<noteq> None) es))))"
proof -
  have "filter below_one (filter (\<lambda>e. snd e = None) es) = []"
    by (induction es) (auto simp: below_one_not_None)
  then show ?thesis
    by (simp add: sort_values_desc_def)
qed

lemma set_sort_values_desc: "set (sort_values_desc es) = set es"
  by (auto simp: sort_values_desc_def)

lemma mset_sort_values_desc: "mset (sort_values_desc es) = mset es"
  by (simp add: sort_values_desc_def mset_filter flip: multiset_partition)

lemma top_correlations_subset:
  assumes "e \<in> set (top_correlations n df)"
  shows "e \<in> set (corr_abs_unstack df) \<and> below_one e"
proof -
  from assms have "e \<in> set (filter (\<lambda>e. snd e \<noteq> None) (filter below_one
       (sort_values_desc (corr_abs_unstack df))))"
    unfolding top_correlations_def by (rule in_set_takeD)
  then show ?thesis
    by (simp add: set_sort_values_desc)
qed

lemma rev_sort_key_desc: "sorted_wrt (\<lambda>a b. f b \<le> f a) (rev (sort_key f xs))"
proof -
  have "sorted_wrt (\<lambda>a b. f a \<le> f b) (sort_key f xs)"
    using sorted_sort_key [of f xs] by (simp add: sorted_wrt_map)
  then show ?thesis
    by (simp add: sorted_wrt_rev)
qed

lemma top_correlations_desc:
  "sorted_wrt (\<lambda>a b. entry_key b \<le> entry_key a) (top_correlations n df)"
  unfolding top_correlations_def filter_below_one_sorted
  by (intro sorted_wrt_take sorted_wrt_filter rev_sort_key_desc)

lemma top_correlations_values:
  "map snd (top_correlations n df) = map Some (map entry_key (top_correlations n df))"
  using top_correlations_subset [of _ n df] below_one_key by (auto simp: comp_def)

lemma corr_abs_unstack_labels:
  "map fst (corr_abs_unstack df) =
   List.product (map fst (numeric_frame df)) (map fst (numeric_frame df))"
  by (simp add: corr_abs_unstack_def product_concat_map map_concat comp_def)

lemma distinct_labels_top:
  assumes "distinct (map fst (numeric_frame df))"
  shows "distinct (map fst (top_correlations n df))"
proof -
  have "distinct (map fst (corr_abs_unstack df))"
    by (simp add: corr_abs_unstack_labels distinct_product assms)
  moreover have "mset (map fst (sort_values_desc (corr_abs_unstack df))) =
      mset (map fst (corr_abs_unstack df))"
    by (simp add: mset_sort_values_desc)
  ultimately have "distinct (map fst (sort_values_desc (corr_abs_unstack df)))"
    using mset_eq_imp_distinct_iff by blast
  then show ?thesis
    unfolding top_correlations_def
    by (simp add: distinct_map_filter flip: take_map)
qed

lemma no_self_pair:
  assumes d: "distinct (map fst (numeric_frame df))"
    and e: "e \<in> set (top_correlations n df)"
  shows "fst (fst e) \<noteq> snd (fst e)"
proof
  assume same: "fst (fst e) = snd (fst e)"
  from top_correlations_subset [OF e]
  have mem: "e \<in> set (corr_abs_unstack df)" and b: "below_one e" by simp_all
  from mem obtain c r where c: "c \<in> set (numeric_frame df)" and r: "r \<in> set (numeric_frame df)"
    and eq: "e = ((fst c, fst r), map_option abs (series_corr (snd r) (snd c)))"
    by (auto simp: corr_abs_unstack_def)
  from same eq have "fst c = fst r" by simp
  with c have m1: "(fst r, snd c) \<in> set (numeric_frame df)"
    by (metis prod.collapse)
  from r have m2: "(fst r, snd r) \<in> set (numeric_frame df)" by simp
  from d m1 m2 have "snd c = snd r"
    by (rule eq_key_imp_eq_value)
  then have "snd e = map_option abs (series_corr (snd r) (snd r))"
    by (simp add: eq)
  with series_corr_self [of "snd r"] have "snd e = None \<or> snd e = Some 1" by simp
  with b show False by (auto simp: below_one_def)
qed

text \<open>Evaluation of the sample tables.\<close>

lemma sqrt_16: "sqrt 16 = 4"
  using real_sqrt_abs [of 4] by simp

lemma sqrt_64: "sqrt 64 = 8"
  using real_sqrt_abs [of 8] by simp

lemmas corr_eval = series_corr_def complete_pairs_def pair_of_def pearson_def mean_def Let_def
  sqrt_16 sqrt_64

lemma numeric_frame_two:
  "numeric_frame two_columns =
     [(''a'', [Num 1, Num 2, Num 3]), (''b'', [Num 1, Num 3, Num 2])]"
  by (simp add: numeric_frame_def two_columns_def column_values_def cell_at_def upt_rec)

lemma corr_abs_unstack_two:
  "corr_abs_unstack two_columns =
     [((''a'', ''a''), Some 1), ((''a'', ''b''), Some (1/2)),
      ((''b'', ''a''), Some (1/2)), ((''b'', ''b''), Some 1)]"
  by (simp add: corr_abs_unstack_def numeric_frame_two corr_eval)

lemma corr_matrix_two:
  "corr_matrix two_columns = [((''a'', ''b''), Some (1/2)), ((''b'', ''a''), Some (1/2))]"
  by (simp add: corr_matrix_def top_correlations_def corr_abs_unstack_two
      sort_values_desc_def entry_key_def below_one_def del: not_None_eq)




text \<open>
  C1, as the code has it. For every table and every limit the ranking is sorted
  non-increasing by the absolute coefficient (every entry carries one). When the numeric
  columns have distinct labels, it lists each ordered pair of labels at most once and no
  pair of a column with itself. It does not take the two orders of a pair for one entry:
  see the counterexample.
\<close>

theorem top_correlations_ordered_pairs:
  "sorted_wrt (\<lambda>a b. entry_key b \<le> entry_key a) (top_correlations limit df)
   \<and> map snd (top_correlations limit df) =
       map Some (map entry_key (top_correlations limit df))
   \<and> (distinct (map fst (numeric_frame df)) \<longrightarrow>
        distinct (map fst (top_correlations limit df))
        \<and> (\<forall>e \<in> set (top_correlations limit df). fst (fst e) \<noteq> snd (fst e)))"
  using distinct_labels_top [of df limit] no_self_pair [of df _ limit]
    top_correlations_desc [of limit df] top_correlations_values [of limit df]
  by blast

theorem top_correlations_ordered_pairs_witness:
  "distinct (map fst (numeric_frame two_columns))
   \<and> corr_matrix two_columns = [((''a'', ''b''), Some (1/2)), ((''b'', ''a''), Some (1/2))]
   \<and> distinct (map fst (top_correlations 5 two_columns))
   \<and> sorted_wrt (\<lambda>a b. entry_key b \<le> entry_key a) (top_correlations 5 two_columns)"
proof -
  have d: "distinct (map fst (numeric_frame two_columns))"
    by (simp add: numeric_frame_two)
  from top_correlations_ordered_pairs [of 5 two_columns] d corr_matrix_two
  show ?thesis by blast
qed

theorem top_correlations_both_orders_counterexample:
  "((''a'', ''b''), Some (1/2)) \<in> set (corr_matrix two_columns)
   \<and> ((''b'', ''a''), Some (1/2)) \<in> set (corr_matrix two_columns)"
  by (simp add: corr_matrix_two)



subsection \<open>Structural errors\<close>






subsection \<open>The trend line\<close>






lemmas trend_eval = app_analysis_def column_values_def cell_at_def polyfit1_def is_num_def
  corr_eval







subsection \<open>The report text\<close>

lemmas safe_text_eval = safe_text_def replacements_def replace_char_def latin1_replace_def
  ascii_simps

text \<open>
  C2. The substitution table maps the plus-minus sign and the en dash to \<^verbatim>\<open>+/-\<close> and
  \<^verbatim>\<open>-\<close>, and a character beyond U+00FF becomes a question mark; but a character of the
  Latin-1 range that the table does not list, such as U+00E9 (e with acute accent) or the
  line feed, is returned as it is, so the result is not always printable ASCII.
\<close>

theorem safe_text_latin1_kept:
  "safe_text [233] = [233] \<and> \<not> printable_ascii 233
   \<and> safe_text [10] = [10] \<and> \<not> printable_ascii 10
   \<and> safe_text [177, 8211, 9731] = ascii ''+/--?''"
  by (simp add: safe_text_eval printable_ascii_def)

end
